theory Spec2Isabelle
  imports Complex_Main "HOL-Library.Sublist"
begin

section \<open>Python values used by the package\<close>

text \<open>
  A Python \<open>float\<close> is an IEEE double: a finite number, one of the two infinities,
  or NaN. A finite double is modelled by the real number it stands for. The result of an
  operation on finite doubles is the exact result rounded to a double, and the rounding is
  a parameter of the model: \<open>rnd r\<close> is the double that the real \<open>r\<close> rounds to, an
  infinity when \<open>r\<close> is too large. The special values follow IEEE 754: every comparison
  with NaN is false and NaN propagates through arithmetic.
\<close>

datatype pyfloat = Fin real | PInf | MInf | NaN

type_synonym rounding = "real \<Rightarrow> pyfloat"

fun fsub :: "rounding \<Rightarrow> pyfloat \<Rightarrow> pyfloat \<Rightarrow> pyfloat" where
  "fsub rnd NaN _ = NaN"
| "fsub rnd _ NaN = NaN"
| "fsub rnd (Fin a) (Fin b) = rnd (a - b)"
| "fsub rnd (Fin a) PInf = MInf"
| "fsub rnd (Fin a) MInf = PInf"
| "fsub rnd PInf PInf = NaN"
| "fsub rnd PInf _ = PInf"
| "fsub rnd MInf MInf = NaN"
| "fsub rnd MInf _ = MInf"

fun fmul :: "rounding \<Rightarrow> pyfloat \<Rightarrow> pyfloat \<Rightarrow> pyfloat" where
  "fmul rnd NaN _ = NaN"
| "fmul rnd _ NaN = NaN"
| "fmul rnd (Fin a) (Fin b) = rnd (a * b)"
| "fmul rnd (Fin a) PInf = (if a = 0 then NaN else if 0 < a then PInf else MInf)"
| "fmul rnd (Fin a) MInf = (if a = 0 then NaN else if 0 < a then MInf else PInf)"
| "fmul rnd PInf (Fin b) = (if b = 0 then NaN else if 0 < b then PInf else MInf)"
| "fmul rnd MInf (Fin b) = (if b = 0 then NaN else if 0 < b then MInf else PInf)"
| "fmul rnd PInf PInf = PInf"
| "fmul rnd PInf MInf = MInf"
| "fmul rnd MInf PInf = MInf"
| "fmul rnd MInf MInf = PInf"

text \<open>
  Two facts of the rounding of doubles that some properties need: rounding a real never
  gives NaN, and the literal \<open>0.2\<close> is a positive finite double.
\<close>

definition rounding_ok :: "rounding \<Rightarrow> bool" where
  "rounding_ok rnd = ((\<forall>r. rnd r \<noteq> NaN) \<and> (\<exists>c. 0 < c \<and> rnd (2 / 10) = Fin c))"

text \<open>
  A rounding for running the model on the examples below. It gives \<open>0.2\<close> the double
  nearest to it, \<open>3602879701896397 / 2^54\<close>, and leaves every other real as it is; the
  other reals that the examples round are doubles already.
\<close>

definition example_rounding :: rounding where
  "example_rounding r =
     (if r = 2 / 10 then Fin (3602879701896397 / 18014398509481984) else Fin r)"

text \<open>The comparison \<open>a < b\<close> of two floats.\<close>

fun flt :: "pyfloat \<Rightarrow> pyfloat \<Rightarrow> bool" where
  "flt NaN _ = False"
| "flt _ NaN = False"
| "flt (Fin a) (Fin b) = (a < b)"
| "flt (Fin a) PInf = True"
| "flt (Fin a) MInf = False"
| "flt PInf _ = False"
| "flt MInf MInf = False"
| "flt MInf _ = True"

text \<open>The comparison \<open>a >= b\<close> of two floats.\<close>

fun fge :: "pyfloat \<Rightarrow> pyfloat \<Rightarrow> bool" where
  "fge NaN _ = False"
| "fge _ NaN = False"
| "fge (Fin a) (Fin b) = (b \<le> a)"
| "fge (Fin a) PInf = False"
| "fge (Fin a) MInf = True"
| "fge PInf _ = True"
| "fge MInf MInf = True"
| "fge MInf _ = False"

text \<open>
  \<open>np.array(xs, dtype = float)\<close> on a sequence of floats in which an absent value is
  written \<open>None\<close>: \<open>None\<close> becomes NaN.
\<close>

fun to_float :: "pyfloat option \<Rightarrow> pyfloat" where
  "to_float None = NaN"
| "to_float (Some v) = v"

definition np_array_float :: "pyfloat option list \<Rightarrow> pyfloat list" where
  "np_array_float xs = map to_float xs"

text \<open>The exceptions the modelled code raises, each with a short tag for its message.\<close>

datatype error =
    ValueError string
  | TypeError string
  | AttributeError string
  | OSError string
  | UnboundLocalError string
  | ZeroDivisionError string
  | IndexError string

section \<open>The regular expression for substitution placeholders\<close>

text \<open>
  A string is a list of characters of one byte each. On ASCII text \<open>\w\<close> of Python's
  \<open>re\<close> is a letter, a digit or the underscore; beyond ASCII it also matches the
  letters and digits of Unicode, which \<open>word_char\<close> does not describe, so what is
  proved of the search is stated for ASCII commands.
\<close>

definition is_ascii :: "char \<Rightarrow> bool" where
  "is_ascii c = ((of_char c :: nat) < 128)"

definition ascii_text :: "string \<Rightarrow> bool" where
  "ascii_text s = list_all is_ascii s"

definition word_char :: "char \<Rightarrow> bool" where
  "word_char c =
     (let n = (of_char c :: nat) in
      (48 \<le> n \<and> n \<le> 57) \<or> (65 \<le> n \<and> n \<le> 90) \<or> n = 95 \<or> (97 \<le> n \<and> n \<le> 122))"

text \<open>
  One attempt to match \<open>\$\{\w+\}\<close> at the start of a string: the name between the
  braces and the rest of the string after the closing brace. \<open>\w+\<close> is greedy, and since
  the closing brace is no word character no shorter name can match where the longest
  one does not.
\<close>

fun match_placeholder :: "string \<Rightarrow> (string \<times> string) option" where
  "match_placeholder (a # b # r) =
     (if a = CHR ''$'' \<and> b = CHR ''{'' then
        (let w = takeWhile word_char r; t = dropWhile word_char r in
         if w \<noteq> [] \<and> t \<noteq> [] \<and> hd t = CHR ''}'' then Some (w, tl t) else None)
      else None)"
| "match_placeholder _ = None"

text \<open>\<open>re.search("\$\{\w+\}", cmd) is not None\<close>: some suffix starts with a match.\<close>

fun re_search_placeholder :: "string \<Rightarrow> bool" where
  "re_search_placeholder [] = False"
| "re_search_placeholder (c # cs) =
     (match_placeholder (c # cs) \<noteq> None \<or> re_search_placeholder cs)"

text \<open>
  What it means for a command to contain a placeholder \<open>${varname}\<close>, stated without
  reference to the matching procedure: the command splits into a prefix, the two
  opening characters, a non-empty name of word characters, the closing brace and a
  suffix.
\<close>

definition has_placeholder :: "string \<Rightarrow> bool" where
  "has_placeholder cmd =
     (\<exists>pre w post. cmd = pre @ ''${'' @ w @ ''}'' @ post \<and> w \<noteq> [] \<and> list_all word_char w)"

section \<open>The parameter table\<close>

text \<open>
  \<open>Parameters\<close> is a data frame built from a dictionary of five columns and indexed
  by the variable names. It is modelled column by column, as the constructor builds it.
\<close>

record Parameters =
  index_labels :: "string list"
  col_command :: "string list"
  col_value :: "pyfloat list"
  col_min :: "pyfloat list"
  col_max :: "pyfloat list"
  col_sigma :: "pyfloat list"

text \<open>\<open>(minimums >= maximums).any()\<close> on two arrays of equal length.\<close>

definition any_ge :: "pyfloat list \<Rightarrow> pyfloat list \<Rightarrow> bool" where
  "any_ge minimums maximums = list_ex (\<lambda>(a, b). fge a b) (zip minimums maximums)"

text \<open>
  \<open>0.2 * (maximums - minimums)\<close>, element by element: the difference of the two
  doubles, rounded, times the double of the literal \<open>0.2\<close>, rounded.
\<close>

definition default_sigma :: "rounding \<Rightarrow> pyfloat list \<Rightarrow> pyfloat list \<Rightarrow> pyfloat list" where
  "default_sigma rnd minimums maximums =
     map (\<lambda>(mx, mn). fmul rnd (rnd (2 / 10)) (fsub rnd mx mn)) (zip maximums minimums)"

text \<open>
  \<open>Parameters.__init__\<close>. The checks are made in the order of the source: the lengths,
  the bounds, the length of an explicit \<open>sigma0\<close>, the command templates.
\<close>

definition Parameters_init ::
  "rounding \<Rightarrow> string list \<Rightarrow> string list \<Rightarrow> pyfloat option list \<Rightarrow>
   pyfloat option list \<Rightarrow> pyfloat option list \<Rightarrow> pyfloat list option \<Rightarrow>
   error + Parameters" where
  "Parameters_init rnd variables commands initial_values minimums maximums sigma0 =
     (if \<not> (length variables = length commands \<and> length commands = length initial_values \<and>
             length initial_values = length minimums \<and> length minimums = length maximums)
      then Inl (ValueError ''same length'')
      else
        let initial_values' = np_array_float initial_values;
            minimums' = np_array_float minimums;
            maximums' = np_array_float maximums
        in
        if any_ge minimums' maximums' then Inl (ValueError ''maximum smaller or equal'')
        else
          (case (case sigma0 of
                   None \<Rightarrow> Inr (default_sigma rnd minimums' maximums')
                 | Some s \<Rightarrow>
                     if length s \<noteq> length variables then Inl (ValueError ''sigma0 length'')
                     else Inr s) of
             Inl e \<Rightarrow> Inl e
           | Inr sigma0' \<Rightarrow>
               if list_ex (\<lambda>cmd. \<not> re_search_placeholder cmd) commands
               then Inl (ValueError ''no substitution placeholder'')
               else Inr \<lparr> index_labels = variables, col_command = commands,
                          col_value = initial_values', col_min = minimums',
                          col_max = maximums', col_sigma = sigma0' \<rparr>))"

text \<open>
  The conditions under which the specification says construction fails, in its words:
  the five sequences do not all have the same length, some minimum is greater than or
  equal to its maximum, some command has no placeholder, or an explicit \<open>sigma0\<close> has
  the wrong length.
\<close>

definition violates_constraints ::
  "string list \<Rightarrow> string list \<Rightarrow> pyfloat option list \<Rightarrow> pyfloat option list \<Rightarrow>
   pyfloat option list \<Rightarrow> pyfloat list option \<Rightarrow> bool" where
  "violates_constraints variables commands initial_values minimums maximums sigma0 =
     (\<not> (length variables = length commands \<and> length commands = length initial_values \<and>
          length initial_values = length minimums \<and> length minimums = length maximums)
      \<or> (\<exists>i. i < length minimums \<and> i < length maximums \<and>
               fge (to_float (minimums ! i)) (to_float (maximums ! i)))
      \<or> (\<exists>cmd. cmd \<in> set commands \<and> \<not> has_placeholder cmd)
      \<or> (\<exists>s. sigma0 = Some s \<and> length s \<noteq> length variables))"

section \<open>The simulation wrapper\<close>

text \<open>
  \<open>Simulation\<close> drives a LIGGGHTS engine through its Python binding. The binding is
  not part of the package, so it is a parameter of the model: \<open>'e\<close> is the state of the
  engine, \<open>lmp_command\<close> what a command does to it, \<open>lmp_extract_variable\<close> the value
  of an equal-style variable (\<open>None\<close> when the engine has none of that name) and
  \<open>lmp_extract_global\<close> the value of a global. A call of the binding is assumed to
  return. \<open>str_float\<close> is Python's \<open>str\<close> on a float, whose digits are outside
  the model.
\<close>

record 'e liggghts =
  lmp_new :: "string list \<Rightarrow> 'e"
  lmp_file :: "string \<Rightarrow> 'e \<Rightarrow> 'e"
  lmp_command :: "string \<Rightarrow> 'e \<Rightarrow> 'e"
  lmp_extract_variable :: "string \<Rightarrow> 'e \<Rightarrow> pyfloat option"
  lmp_extract_global :: "string \<Rightarrow> 'e \<Rightarrow> pyfloat"
  str_float :: "pyfloat \<Rightarrow> string"

text \<open>Python's \<open>str\<close> on an integer: its decimal digits, with a sign when negative.\<close>

definition digit_char :: "nat \<Rightarrow> char" where
  "digit_char d = ''0123456789'' ! d"

fun str_nat :: "nat \<Rightarrow> string" where
  "str_nat n = (if n < 10 then [digit_char n] else str_nat (n div 10) @ [digit_char (n mod 10)])"

definition str_int :: "int \<Rightarrow> string" where
  "str_int i = (if i < 0 then CHR ''-'' # str_nat (nat (- i)) else str_nat (nat i))"

text \<open>
  The attributes of a \<open>Simulation\<close> object. \<open>verbose_attr\<close> and \<open>step_size_attr\<close>
  are the private attributes \<open>_verbose\<close> and \<open>_step_size\<close>.
\<close>

record 'e Simulation =
  verbose_attr :: bool
  simulation :: 'e
  filename :: string
  parameters :: Parameters
  step_size_attr :: pyfloat

text \<open>
  A method mutates the object and then returns or raises: its model gives the outcome
  together with the object as the call leaves it.
\<close>

datatype 'a outcome = Raise error | Return 'a

text \<open>The truth value Python gives to \<open>None\<close>, \<open>True\<close> and \<open>False\<close>.\<close>

fun truthy :: "bool option \<Rightarrow> bool" where
  "truthy None = False"
| "truthy (Some b) = b"

text \<open>The getter and the setter of the property \<open>step_size\<close>.\<close>

definition step_size :: "'e Simulation \<Rightarrow> pyfloat" where
  "step_size s = step_size_attr s"

definition step_size_set ::
  "'e liggghts \<Rightarrow> pyfloat \<Rightarrow> 'e Simulation \<Rightarrow> unit outcome \<times> 'e Simulation" where
  "step_size_set env new_step_size s =
     (if flt (Fin 0) new_step_size \<and> flt new_step_size (Fin 1) then
        (Return (),
         s\<lparr> step_size_attr := new_step_size,
            simulation := lmp_command env (''timestep '' @ str_float env new_step_size)
                            (simulation s) \<rparr>)
      else (Raise (ValueError ''Step size must be between 0 and 1 !''), s))"

text \<open>
  The getter of the property \<open>verbose\<close>. Its body is the expression statement
  \<open>self._verbose\<close> with no \<open>return\<close>: the attribute is read, the value is dropped and
  the call returns \<open>None\<close>.
\<close>

definition verbose :: "'e Simulation \<Rightarrow> bool option" where
  "verbose s = (let dropped = verbose_attr s in None)"

definition verbose_set :: "bool \<Rightarrow> 'e Simulation \<Rightarrow> 'e Simulation" where
  "verbose_set v s = s\<lparr> verbose_attr := v \<rparr>"

text \<open>\<open>Simulation.step\<close>: the branch is chosen by the property, not by the attribute.\<close>

definition step :: "'e liggghts \<Rightarrow> int \<Rightarrow> 'e Simulation \<Rightarrow> 'e Simulation" where
  "step env num_steps s =
     (if truthy (verbose s) then
        s\<lparr> simulation := lmp_command env (''run '' @ str_int num_steps) (simulation s) \<rparr>
      else
        s\<lparr> simulation := lmp_command env (''run '' @ str_int num_steps @ '' post no'')
                           (simulation s) \<rparr>)"

text \<open>\<open>Simulation.variable\<close>.\<close>

definition variable :: "'e liggghts \<Rightarrow> string \<Rightarrow> 'e Simulation \<Rightarrow> pyfloat option" where
  "variable env var_name s = lmp_extract_variable env var_name (simulation s)"

text \<open>
  \<open>re.sub("\$\{\w+\}", repl, cmd)\<close> with a function \<open>repl\<close> of the matched name: the
  matches are found from left to right and do not overlap.
\<close>

function re_sub_placeholder :: "(string \<Rightarrow> string) \<Rightarrow> string \<Rightarrow> string" where
  "re_sub_placeholder repl [] = []"
| "re_sub_placeholder repl (c # cs) =
     (case match_placeholder (c # cs) of
        Some (w, rest) \<Rightarrow> repl w @ re_sub_placeholder repl rest
      | None \<Rightarrow> c # re_sub_placeholder repl cs)"
  by pat_completeness auto
termination
proof (relation "measure (\<lambda>(repl, s). length s)")
  show "wf (measure (\<lambda>(repl, s). length s))" by simp
next
  fix repl :: "string \<Rightarrow> string" and c :: char and cs :: string and x2 w rest
  assume "match_placeholder (c # cs) = Some x2" "(w, rest) = x2"
  then have m: "match_placeholder (c # cs) = Some (w, rest)" by simp
  then obtain r where r: "cs = CHR ''{'' # r" "dropWhile word_char r \<noteq> []"
      "rest = tl (dropWhile word_char r)"
    by (cases cs) (auto simp: Let_def split: if_splits)
  have "length (dropWhile word_char r) \<le> length r"
    by (rule length_dropWhile_le)
  with r have "length rest < length (c # cs)" by simp
  then show "((repl, rest), (repl, c # cs)) \<in> measure (\<lambda>(repl, s). length s)" by simp
next
  fix repl :: "string \<Rightarrow> string" and c :: char and cs :: string
  show "((repl, cs), (repl, c # cs)) \<in> measure (\<lambda>(repl, s). length s)" by simp
qed

text \<open>
  The cell \<open>parameters.loc[key, "command"]\<close>: the commands of the rows labelled
  \<open>key\<close>. One such row gives a string; several give a series.
\<close>

fun loc_rows :: "string \<Rightarrow> string list \<Rightarrow> 'a list \<Rightarrow> 'a list" where
  "loc_rows key (l # ls) (x # xs) = (if l = key then x # loc_rows key ls xs else loc_rows key ls xs)"
| "loc_rows key _ _ = []"

text \<open>
  The assignment \<open>parameters.at[key, "value"] = value\<close>: the cell of the column in
  every row labelled \<open>key\<close> is replaced, every other cell is kept.
\<close>

fun at_set :: "string \<Rightarrow> 'a \<Rightarrow> string list \<Rightarrow> 'a list \<Rightarrow> 'a list" where
  "at_set key v (l # ls) (x # xs) = (if l = key then v else x) # at_set key v ls xs"
| "at_set key v _ xs = xs"

text \<open>The function \<open>replace_var\<close> local to \<open>__setitem__\<close>, on the matched name.\<close>

definition replace_var ::
  "'e liggghts \<Rightarrow> string \<Rightarrow> pyfloat \<Rightarrow> 'e Simulation \<Rightarrow> string \<Rightarrow> string" where
  "replace_var env key val s var =
     (if var = key then str_float env val
      else (case variable env var s of None \<Rightarrow> ''None'' | Some x \<Rightarrow> str_float env x))"

text \<open>
  \<open>Simulation.__setitem__\<close>. A key that labels no row raises \<open>AttributeError\<close>. A key
  that labels several rows makes the command cell a series, on which \<open>re.sub\<close> raises
  \<open>TypeError\<close>. Otherwise the command is run with its placeholders replaced, the
  engine's variable is redefined and the value cell of the row is set.
\<close>

definition setitem ::
  "'e liggghts \<Rightarrow> string \<Rightarrow> pyfloat \<Rightarrow> 'e Simulation \<Rightarrow> unit outcome \<times> 'e Simulation" where
  "setitem env key val s =
     (if key \<notin> set (index_labels (parameters s)) then
        (Raise (AttributeError ''The given parameter name does not exist''), s)
      else
        (case loc_rows key (index_labels (parameters s)) (col_command (parameters s)) of
           [template] \<Rightarrow>
             (let cmd = re_sub_placeholder (replace_var env key val s) template;
                  sim1 = lmp_command env cmd (simulation s);
                  sim2 = lmp_command env (''variable '' @ key @ '' equal '' @ str_float env val) sim1
              in (Return (),
                  s\<lparr> simulation := sim2,
                     parameters := (parameters s)\<lparr> col_value :=
                       at_set key val (index_labels (parameters s)) (col_value (parameters s)) \<rparr> \<rparr>))
         | _ \<Rightarrow> (Raise (TypeError ''expected string or bytes-like object''), s)))"

text \<open>
  The loop that ends \<open>Simulation.__init__\<close>: every label of the index, in order, is
  assigned the value the table holds for it. A label of several rows reads a series
  from the table, and the assignment of it raises as \<open>__setitem__\<close> does for such a
  label.
\<close>

fun init_items ::
  "'e liggghts \<Rightarrow> string list \<Rightarrow> 'e Simulation \<Rightarrow> unit outcome \<times> 'e Simulation" where
  "init_items env [] s = (Return (), s)"
| "init_items env (idx # rest) s =
     (case loc_rows idx (index_labels (parameters s)) (col_value (parameters s)) of
        [v] \<Rightarrow>
          (case setitem env idx v s of
             (Return u, s') \<Rightarrow> init_items env rest s'
           | (Raise e, s') \<Rightarrow> (Raise e, s'))
      | _ \<Rightarrow> (Raise (TypeError ''expected string or bytes-like object''), s))"

text \<open>
  \<open>Simulation.__init__\<close>. \<open>readable\<close> says which paths \<open>open\<close> can open. The
  table has the type \<open>Parameters\<close>, so the \<open>isinstance\<close> check passes.
\<close>

definition Simulation_init ::
  "'e liggghts \<Rightarrow> (string \<Rightarrow> bool) \<Rightarrow> string \<Rightarrow> Parameters \<Rightarrow> bool \<Rightarrow>
   error + 'e Simulation" where
  "Simulation_init env readable script params verbose_arg =
     (let engine = (if verbose_arg then lmp_new env []
                    else lmp_new env [''-screen'', ''/dev/null''])
      in
      if \<not> readable script then Inl (OSError ''No such file or directory'')
      else
        let engine' = lmp_file env script engine;
            s = \<lparr> verbose_attr = verbose_arg, simulation = engine', filename = script,
                  parameters = params,
                  step_size_attr = lmp_extract_global env ''dt'' engine' \<rparr>
        in (case init_items env (index_labels params) s of
              (Return u, s') \<Rightarrow> Inr s'
            | (Raise e, s') \<Rightarrow> Inl e))"

text \<open>
  An engine for running the model on concrete inputs: its state is the list of the
  commands it has received, it has no variables, and its time step is \<open>1e-5\<close>.
\<close>

definition recording_engine :: "string list liggghts" where
  "recording_engine =
     \<lparr> lmp_new = (\<lambda>args. []),
       lmp_file = (\<lambda>path e. e @ [''file '' @ path]),
       lmp_command = (\<lambda>cmd e. e @ [cmd]),
       lmp_extract_variable = (\<lambda>name e. None),
       lmp_extract_global = (\<lambda>name e. Fin (1 / 100000)),
       str_float = (\<lambda>x. case x of Fin r \<Rightarrow> (if r = 3 / 4 then ''0.75'' else ''0.5'')
                              | PInf \<Rightarrow> ''inf'' | MInf \<Rightarrow> ''-inf'' | NaN \<Rightarrow> ''nan'') \<rparr>"

definition example_table :: Parameters where
  "example_table =
     \<lparr> index_labels = [''cor'', ''sep''],
       col_command = [''fix m3 ${cor} ${sep}'', ''fix m4 ${sep}''],
       col_value = [Fin 1, Fin 2], col_min = [Fin 0, Fin 0], col_max = [Fin 5, Fin 5],
       col_sigma = [Fin 1, Fin 1] \<rparr>"

definition example_simulation :: "string list Simulation" where
  "example_simulation =
     \<lparr> verbose_attr = True, simulation = [], filename = ''in.sim'',
       parameters = example_table, step_size_attr = Fin (1 / 100000) \<rparr>"


section \<open>Reading a run directory\<close>

subsection \<open>Paths, patterns and numbers in file names\<close>

text \<open>\<open>os.path.join\<close> of two components, on POSIX.\<close>

definition path_join :: "string \<Rightarrow> string \<Rightarrow> string" where
  "path_join a b =
     (if b \<noteq> [] \<and> hd b = CHR ''/'' then b
      else if a = [] \<or> last a = CHR ''/'' then a @ b
      else a @ ''/'' @ b)"

definition is_digit :: "char \<Rightarrow> bool" where
  "is_digit c = (let n = (of_char c :: nat) in 48 \<le> n \<and> n \<le> 57)"

text \<open>The characters \<open>int\<close> strips from both ends of an ASCII string.\<close>

definition is_space :: "char \<Rightarrow> bool" where
  "is_space c = (let n = (of_char c :: nat) in (9 \<le> n \<and> n \<le> 13) \<or> (28 \<le> n \<and> n \<le> 32))"

text \<open>
  One attempt to match \<open>opt_history_[0-9]+\.csv\<close> at the start of a string, and the
  search of the pattern anywhere in a file name (\<open>history_finder.search(f)\<close>).
\<close>

definition match_history :: "string \<Rightarrow> bool" where
  "match_history s =
     (prefix ''opt_history_'' s \<and>
      (let r = drop 12 s in
       takeWhile is_digit r \<noteq> [] \<and> prefix ''.csv'' (dropWhile is_digit r)))"

fun search_history :: "string \<Rightarrow> bool" where
  "search_history [] = False"
| "search_history (c # cs) = (match_history (c # cs) \<or> search_history cs)"

text \<open>
  \<open>re.split(r"opt_history_|\.csv", s)\<close>: the pieces of \<open>s\<close> between the
  occurrences of the two tokens, found from left to right.
\<close>

fun re_split_tokens :: "string \<Rightarrow> string \<Rightarrow> string list" where
  "re_split_tokens piece [] = [piece]"
| "re_split_tokens piece (c # cs) =
     (if prefix ''opt_history_'' (c # cs) then piece # re_split_tokens [] (drop 11 cs)
      else if prefix ''.csv'' (c # cs) then piece # re_split_tokens [] (drop 3 cs)
      else re_split_tokens (piece @ [c]) cs)"

text \<open>\<open>s.split(".csv")[0]\<close>: the text before the first occurrence of the separator.\<close>

fun before_first :: "string \<Rightarrow> string \<Rightarrow> string" where
  "before_first sep [] = []"
| "before_first sep (c # cs) = (if prefix sep (c # cs) then [] else c # before_first sep cs)"

text \<open>
  \<open>int(s)\<close> on an ASCII string: white space is stripped from both ends, a sign may come
  first, and the digits may be separated by single underscores. \<open>None\<close> stands for the
  \<open>ValueError\<close> of any other string. The bound that later versions of Python put on
  the number of digits is not modelled.
\<close>

definition digit_value :: "char \<Rightarrow> nat" where
  "digit_value c = of_char c - 48"

fun parse_digits :: "nat \<Rightarrow> string \<Rightarrow> nat option" where
  "parse_digits acc [] = Some acc"
| "parse_digits acc [c] = (if is_digit c then Some (10 * acc + digit_value c) else None)"
| "parse_digits acc (c # d # ds) =
     (if is_digit c then parse_digits (10 * acc + digit_value c) (d # ds)
      else if c = CHR ''_'' \<and> is_digit d then parse_digits (10 * acc + digit_value d) ds
      else None)"

definition parse_nat :: "string \<Rightarrow> nat option" where
  "parse_nat s =
     (case s of [] \<Rightarrow> None
      | c # cs \<Rightarrow> if is_digit c then parse_digits (digit_value c) cs else None)"

definition strip :: "string \<Rightarrow> string" where
  "strip s = rev (dropWhile is_space (rev (dropWhile is_space s)))"

definition py_int :: "string \<Rightarrow> int option" where
  "py_int s =
     (case strip s of
        [] \<Rightarrow> None
      | c # cs \<Rightarrow>
          if c = CHR ''-'' then map_option (\<lambda>n. - int n) (parse_nat cs)
          else if c = CHR ''+'' then map_option int (parse_nat cs)
          else map_option int (parse_nat (c # cs)))"

subsection \<open>The files of a run and the arrays read from them\<close>

text \<open>
  The data frame \<open>access_info.parameters\<close> of a run, indexed by the parameter names,
  and the object unpickled from \<open>access_info.pickle\<close>.
\<close>

record ParameterFrame =
  pf_index :: "string list"
  pf_value :: "pyfloat list"
  pf_min :: "pyfloat list"
  pf_max :: "pyfloat list"
  pf_sigma :: "pyfloat list"

record AccessInfo =
  info_parameters :: ParameterFrame
  info_target_sigma :: pyfloat
  info_random_seed :: int

text \<open>
  What the reader sees of the file system, by path as the reader writes it:
  the entries \<open>os.listdir\<close> returns, in its order; the object \<open>pickle.load\<close> returns;
  the rows of numbers of a text table. \<open>None\<close> is a path the call fails on.
\<close>

record filesys =
  fs_listdir :: "string \<Rightarrow> string list option"
  fs_pickle :: "string \<Rightarrow> AccessInfo option"
  fs_table :: "string \<Rightarrow> pyfloat list list option"

text \<open>
  \<open>np.loadtxt(path)\<close>. Blank lines are skipped; rows of different lengths are an error;
  the result is squeezed, so that a table of one row or of one column is an array of one
  dimension and a table of one number an array of none.
\<close>

datatype ndarray = Arr0 pyfloat | Arr1 "pyfloat list" | Arr2 "pyfloat list list"

definition np_loadtxt :: "filesys \<Rightarrow> string \<Rightarrow> error + ndarray" where
  "np_loadtxt fs path =
     (case fs_table fs path of
        None \<Rightarrow> Inl (OSError ''not found'')
      | Some lines \<Rightarrow>
          (let rows = filter (\<lambda>r. r \<noteq> []) lines in
           case rows of
             [] \<Rightarrow> Inr (Arr1 [])
           | r # rs \<Rightarrow>
               if list_ex (\<lambda>r'. length r' \<noteq> length r) rs
               then Inl (ValueError ''the number of columns changed'')
               else if rs = [] \<and> length r = 1 then Inr (Arr0 (hd r))
               else if rs = [] then Inr (Arr1 r)
               else if length r = 1 then Inr (Arr1 (map hd rows))
               else Inr (Arr2 rows)))"

text \<open>\<open>len\<close> of an array: the size of its first dimension.\<close>

fun len_ndarray :: "ndarray \<Rightarrow> error + int" where
  "len_ndarray (Arr0 x) = Inl (TypeError ''len() of unsized object'')"
| "len_ndarray (Arr1 xs) = Inr (int (length xs))"
| "len_ndarray (Arr2 rows) = Inr (int (length rows))"

text \<open>
  \<open>pd.DataFrame(data = array, columns = names, dtype = float)\<close>: the array must have
  as many columns as there are names; an array of one dimension is a single column.
\<close>

record DataFrame =
  df_columns :: "string list"
  df_rows :: "pyfloat list list"

fun DataFrame_init :: "ndarray \<Rightarrow> string list \<Rightarrow> error + DataFrame" where
  "DataFrame_init (Arr0 x) names = Inl (ValueError ''Must pass 2-d input'')"
| "DataFrame_init (Arr1 xs) names =
     (if xs \<noteq> [] \<and> length names = 1
      then Inr \<lparr> df_columns = names, df_rows = map (\<lambda>x. [x]) xs \<rparr>
      else Inl (ValueError ''Shape of passed values''))"
| "DataFrame_init (Arr2 rows) names =
     (if rows \<noteq> [] \<and> length (hd rows) = length names
      then Inr \<lparr> df_columns = names, df_rows = rows \<rparr>
      else Inl (ValueError ''Shape of passed values''))"

subsection \<open>The reader\<close>

text \<open>The attributes of \<open>AccessData\<close>.\<close>

record AccessData =
  ad_parameters :: ParameterFrame
  ad_num_solutions :: int
  ad_target_sigma :: pyfloat
  ad_random_seed :: int
  ad_results :: DataFrame
  ad_results_scaled :: DataFrame
  ad_num_epochs :: int

text \<open>\<open>find_access_path\<close>.\<close>

definition find_access_path :: "filesys \<Rightarrow> string \<Rightarrow> error + string" where
  "find_access_path fs path =
     (if prefix ''access_info_'' path then Inr path
      else
        (case fs_listdir fs path of
           None \<Rightarrow> Inl (OSError ''cannot list'')
         | Some entries \<Rightarrow>
             (case filter (prefix ''access_info_'') entries of
                f # rest \<Rightarrow> Inr (path_join path f)
              | [] \<Rightarrow> Inr path)))"

text \<open>
  The loop of \<open>AccessData.read\<close> over the entries of the directory. Each entry that
  the pattern finds sets the three variables anew, so the last such entry stands; the
  number is parsed from the second piece of the path of the file.
\<close>

fun scan_entries ::
  "string \<Rightarrow> string list \<Rightarrow> (string \<times> string \<times> int) option \<Rightarrow>
   error + (string \<times> string \<times> int) option" where
  "scan_entries access_path [] found = Inr found"
| "scan_entries access_path (f # fs) found =
     (if search_history f then
        (let history_path = path_join access_path f;
             history_scaled_path = before_first ''.csv'' history_path @ ''_scaled.csv''
         in
         case re_split_tokens [] history_path of
           p0 # p1 # ps \<Rightarrow>
             (case py_int p1 of
                None \<Rightarrow> Inl (ValueError ''invalid literal for int()'')
              | Some n \<Rightarrow> scan_entries access_path fs (Some (history_path, history_scaled_path, n)))
         | _ \<Rightarrow> Inl (IndexError ''list index out of range''))
      else scan_entries access_path fs found)"

text \<open>The names of the columns of both history tables.\<close>

definition results_columns :: "ParameterFrame \<Rightarrow> string list" where
  "results_columns p =
     pf_index p @ map (\<lambda>rc. rc @ ''_std'') (pf_index p) @ [''overall_std'', ''error'']"

text \<open>\<open>AccessData.read\<close>.\<close>

definition AccessData_read :: "filesys \<Rightarrow> string \<Rightarrow> error + AccessData" where
  "AccessData_read fs path =
     (case find_access_path fs path of
        Inl e \<Rightarrow> Inl e
      | Inr access_path \<Rightarrow>
     (case fs_listdir fs access_path of
        None \<Rightarrow> Inl (OSError ''cannot list'')
      | Some entries \<Rightarrow>
     (case scan_entries access_path entries None of
        Inl e \<Rightarrow> Inl e
      | Inr found \<Rightarrow>
     (case fs_pickle fs (path_join access_path ''access_info.pickle'') of
        None \<Rightarrow> Inl (OSError ''cannot open access_info.pickle'')
      | Some access_info \<Rightarrow>
     (case found of
        None \<Rightarrow> Inl (UnboundLocalError ''history_path'')
      | Some (history_path, history_scaled_path, num_solutions) \<Rightarrow>
     (case np_loadtxt fs history_path of
        Inl e \<Rightarrow> Inl e
      | Inr history \<Rightarrow>
     (case np_loadtxt fs history_scaled_path of
        Inl e \<Rightarrow> Inl e
      | Inr history_scaled \<Rightarrow>
     (case DataFrame_init history (results_columns (info_parameters access_info)) of
        Inl e \<Rightarrow> Inl e
      | Inr results \<Rightarrow>
     (case DataFrame_init history_scaled (results_columns (info_parameters access_info)) of
        Inl e \<Rightarrow> Inl e
      | Inr results_scaled \<Rightarrow>
     (case len_ndarray history of
        Inl e \<Rightarrow> Inl e
      | Inr n_rows \<Rightarrow>
          if num_solutions = 0 then Inl (ZeroDivisionError ''integer division by zero'')
          else Inr \<lparr> ad_parameters = info_parameters access_info,
                     ad_num_solutions = num_solutions,
                     ad_target_sigma = info_target_sigma access_info,
                     ad_random_seed = info_random_seed access_info,
                     ad_results = results,
                     ad_results_scaled = results_scaled,
                     ad_num_epochs = n_rows div num_solutions \<rparr>))))))))))"


subsection \<open>The constructor of the class\<close>

text \<open>
  \<open>AccessData\<close> is an \<open>attrs\<close> class with seven attributes and no constructor of
  its own: the generated \<open>__init__\<close> takes the seven attribute values in the order of
  their declaration and stores them as they are. A call with another number of
  positional arguments raises \<open>TypeError\<close>. \<open>pyobj\<close> are the values that can be passed.
\<close>

datatype pyobj =
    PyStr string
  | PyInt int
  | PyFloat pyfloat
  | PyParameters ParameterFrame
  | PyFrame DataFrame

definition AccessData_init :: "pyobj list \<Rightarrow> error + pyobj list" where
  "AccessData_init args =
     (if length args = 7 then Inr args
      else Inl (TypeError ''__init__() missing or unexpected positional arguments''))"

text \<open>The attribute values of an object that \<open>AccessData.read\<close> built.\<close>

definition attributes :: "AccessData \<Rightarrow> pyobj list" where
  "attributes d =
     [PyParameters (ad_parameters d), PyInt (ad_num_solutions d), PyFloat (ad_target_sigma d),
      PyInt (ad_random_seed d), PyFrame (ad_results d), PyFrame (ad_results_scaled d),
      PyInt (ad_num_epochs d)]"

subsection \<open>A run directory on disk\<close>

text \<open>
  A file system for running the reader: \<open>parent\<close> holds the single directory
  \<open>name\<close>, and that directory holds the three files the reader looks for, the
  snapshot \<open>access_info.pickle\<close> and the raw and the scaled history of a run of
  population size \<open>n\<close>.
\<close>

definition fs_with_run ::
  "string \<Rightarrow> string \<Rightarrow> nat \<Rightarrow> AccessInfo \<Rightarrow> pyfloat list list \<Rightarrow> pyfloat list list \<Rightarrow> filesys"
  where
  "fs_with_run parent name n info history scaled =
     (let dir = path_join parent name;
          raw_name = ''opt_history_'' @ str_nat n @ ''.csv'';
          scaled_name = ''opt_history_'' @ str_nat n @ ''_scaled.csv''
      in
      \<lparr> fs_listdir = (\<lambda>p. if p = dir then Some [''access_info.pickle'', raw_name, scaled_name]
                          else if p = parent then Some [name] else None),
        fs_pickle = (\<lambda>p. if p = path_join dir ''access_info.pickle'' then Some info else None),
        fs_table = (\<lambda>p. if p = path_join dir raw_name then Some history
                        else if p = path_join dir scaled_name then Some scaled else None) \<rparr>)"

definition example_info :: AccessInfo where
  "example_info =
     \<lparr> info_parameters =
         \<lparr> pf_index = [''fp1''], pf_value = [Fin 1], pf_min = [Fin (- 5)], pf_max = [Fin 10],
           pf_sigma = [Fin 3] \<rparr>,
       info_target_sigma = Fin (1 / 10),
       info_random_seed = 123 \<rparr>"

definition example_history :: "pyfloat list list" where
  "example_history =
     [[Fin 1, Fin 3, Fin 1, Fin 9], [Fin 2, Fin 3, Fin 1, Fin 4],
      [Fin 1, Fin 2, Fin 1, Fin 1], [Fin 0, Fin 2, Fin 1, Fin 0]]"

definition example_columns :: "string list" where
  "example_columns = [''fp1'', ''fp1_std'', ''overall_std'', ''error'']"





text \<open>What the reader returns for the example run when the population size is \<open>n\<close>.\<close>

definition example_data :: "int \<Rightarrow> AccessData" where
  "example_data n =
     \<lparr> ad_parameters = info_parameters example_info,
       ad_num_solutions = n,
       ad_target_sigma = Fin (1 / 10),
       ad_random_seed = 123,
       ad_results = \<lparr> df_columns = example_columns, df_rows = example_history \<rparr>,
       ad_results_scaled = \<lparr> df_columns = example_columns, df_rows = example_history \<rparr>,
       ad_num_epochs = 4 div n \<rparr>"


section \<open>Properties of the parameter table\<close>

subsection \<open>The placeholder search finds exactly the placeholders\<close>

lemma not_word_char_brace: "\<not> word_char CHR ''}''"
  by (simp add: word_char_def)

lemma match_placeholder_Some_iff:
  "match_placeholder s = Some (w, t) \<longleftrightarrow>
     s = ''${'' @ w @ ''}'' @ t \<and> w \<noteq> [] \<and> list_all word_char w"
proof
  assume m: "match_placeholder s = Some (w, t)"
  then obtain r where s: "s = CHR ''$'' # CHR ''{'' # r"
    by (cases s rule: match_placeholder.cases) (auto split: if_splits)
  from m s have w: "w = takeWhile word_char r" and ne: "w \<noteq> []"
    and d: "dropWhile word_char r = CHR ''}'' # t"
    by (auto simp: Let_def split: if_splits intro: list.expand)
  have "r = takeWhile word_char r @ dropWhile word_char r" by simp
  with w d have "r = w @ CHR ''}'' # t" by simp
  moreover have "list_all word_char w"
    unfolding w list_all_iff by (metis set_takeWhileD)
  ultimately show "s = ''${'' @ w @ ''}'' @ t \<and> w \<noteq> [] \<and> list_all word_char w"
    using s ne by simp
next
  assume a: "s = ''${'' @ w @ ''}'' @ t \<and> w \<noteq> [] \<and> list_all word_char w"
  then have tw: "takeWhile word_char (w @ CHR ''}'' # t) = w"
    by (simp add: takeWhile_tail not_word_char_brace list_all_iff)
  from a have dw: "dropWhile word_char (w @ CHR ''}'' # t) = CHR ''}'' # t"
    by (simp add: dropWhile_append3 not_word_char_brace list_all_iff)
  from a tw dw show "match_placeholder s = Some (w, t)"
    by simp
qed

lemma re_search_placeholder_iff_suffix:
  "re_search_placeholder s \<longleftrightarrow> (\<exists>pre suf. s = pre @ suf \<and> match_placeholder suf \<noteq> None)"
proof (induction s)
  case Nil
  then show ?case by simp
next
  case (Cons c cs)
  show ?case
  proof
    assume "re_search_placeholder (c # cs)"
    then consider "match_placeholder (c # cs) \<noteq> None" | "re_search_placeholder cs" by auto
    then show "\<exists>pre suf. c # cs = pre @ suf \<and> match_placeholder suf \<noteq> None"
    proof cases
      case 1
      then show ?thesis by (metis append_Nil)
    next
      case 2
      with Cons.IH obtain pre suf where "cs = pre @ suf" "match_placeholder suf \<noteq> None" by blast
      then show ?thesis by (metis append_Cons)
    qed
  next
    assume "\<exists>pre suf. c # cs = pre @ suf \<and> match_placeholder suf \<noteq> None"
    then obtain pre suf where ps: "c # cs = pre @ suf" "match_placeholder suf \<noteq> None" by blast
    show "re_search_placeholder (c # cs)"
    proof (cases pre)
      case Nil
      with ps have "match_placeholder (c # cs) \<noteq> None" by simp
      then show ?thesis by simp
    next
      case (Cons p pre')
      with ps have "cs = pre' @ suf" by simp
      with ps(2) Cons.IH have "re_search_placeholder cs" by blast
      then show ?thesis by simp
    qed
  qed
qed

lemma re_search_placeholder_iff: "re_search_placeholder s \<longleftrightarrow> has_placeholder s"
proof -
  have "re_search_placeholder s \<longleftrightarrow>
        (\<exists>pre suf w t. s = pre @ suf \<and> match_placeholder suf = Some (w, t))"
    unfolding re_search_placeholder_iff_suffix by auto
  also have "\<dots> \<longleftrightarrow> has_placeholder s"
    unfolding match_placeholder_Some_iff has_placeholder_def by auto
  finally show ?thesis .
qed

lemma any_ge_iff:
  "length xs = length ys \<Longrightarrow>
   any_ge xs ys \<longleftrightarrow> (\<exists>i. i < length xs \<and> fge (xs ! i) (ys ! i))"
  unfolding any_ge_def list_ex_iff by (auto simp: set_zip)

lemma any_ge_np_array:
  assumes "length mins = length maxs"
  shows "any_ge (np_array_float mins) (np_array_float maxs) \<longleftrightarrow>
         (\<exists>i. i < length mins \<and> i < length maxs \<and> fge (to_float (mins ! i)) (to_float (maxs ! i)))"
proof -
  have "any_ge (np_array_float mins) (np_array_float maxs) \<longleftrightarrow>
        (\<exists>i. i < length mins \<and> fge (np_array_float mins ! i) (np_array_float maxs ! i))"
    using assms by (simp add: any_ge_iff np_array_float_def)
  also have "\<dots> \<longleftrightarrow> (\<exists>i. i < length mins \<and> i < length maxs \<and> fge (to_float (mins ! i)) (to_float (maxs ! i)))"
    using assms by (auto simp: np_array_float_def)
  finally show ?thesis .
qed

lemma no_placeholder_iff:
  "list_ex (\<lambda>cmd. \<not> re_search_placeholder cmd) cs \<longleftrightarrow> (\<exists>cmd. cmd \<in> set cs \<and> \<not> has_placeholder cmd)"
  by (auto simp: list_ex_iff re_search_placeholder_iff)

text \<open>
  Claim C1. The constructor of \<open>Parameters\<close> raises, and builds no table, exactly when
  the lengths of the five sequences differ, or some minimum is greater than or equal to its
  maximum, or some command contains no placeholder \<open>${varname}\<close>, or an explicit
  \<open>sigma0\<close> has a length other than the number of variables; what it raises is a
  \<open>ValueError\<close>. On every other input it returns the table of the five columns, indexed
  by the variables. The commands are ASCII text.
\<close>

theorem Parameters_init_raises_iff:
  assumes "list_all ascii_text cs"
  shows "((\<exists>e. Parameters_init rnd vs cs ivs mins maxs sg = Inl e) \<longleftrightarrow>
            violates_constraints vs cs ivs mins maxs sg) \<and>
         ((\<exists>P. Parameters_init rnd vs cs ivs mins maxs sg = Inr P) \<longleftrightarrow>
            \<not> violates_constraints vs cs ivs mins maxs sg) \<and>
         (violates_constraints vs cs ivs mins maxs sg \<longrightarrow>
            (\<exists>msg. Parameters_init rnd vs cs ivs mins maxs sg = Inl (ValueError msg))) \<and>
         (\<not> violates_constraints vs cs ivs mins maxs sg \<longrightarrow>
            Parameters_init rnd vs cs ivs mins maxs sg =
              Inr \<lparr> index_labels = vs, col_command = cs,
                    col_value = np_array_float ivs,
                    col_min = np_array_float mins,
                    col_max = np_array_float maxs,
                    col_sigma =
                      (case sg of
                         None \<Rightarrow> default_sigma rnd (np_array_float mins) (np_array_float maxs)
                       | Some s \<Rightarrow> s) \<rparr>)"
proof (cases "length vs = length cs \<and> length cs = length ivs \<and>
          length ivs = length mins \<and> length mins = length maxs")
  case False
  then show ?thesis
    by (auto simp: Parameters_init_def violates_constraints_def)
next
  case True
  then have len: "length mins = length maxs" by simp
  show ?thesis
    using True
    by (cases sg)
       (auto simp: Parameters_init_def violates_constraints_def Let_def
          any_ge_np_array [OF len] no_placeholder_iff)
qed

theorem Parameters_init_raises_iff_witness:
  "violates_constraints [''corPP''] [''fix m3 all property/global''] [Some (Fin (1/2))]
     [Some (Fin 0)] [Some (Fin 1)] None \<and>
   Parameters_init example_rounding [''corPP''] [''fix m3 ${corPP} x''] [Some (Fin (1/2))]
     [Some (Fin 0)] [Some (Fin 1)] None =
     Inr \<lparr> index_labels = [''corPP''], col_command = [''fix m3 ${corPP} x''],
           col_value = [Fin (1/2)], col_min = [Fin 0], col_max = [Fin 1],
           col_sigma = [Fin (3602879701896397 / 18014398509481984)] \<rparr>"
proof -
  have a1: "list_all ascii_text [''fix m3 all property/global'']"
    and a2: "list_all ascii_text [''fix m3 ${corPP} x'']"
    by (simp_all add: ascii_text_def is_ascii_def)
  have bad: "Parameters_init example_rounding [''corPP''] [''fix m3 all property/global'']
     [Some (Fin (1/2))] [Some (Fin 0)] [Some (Fin 1)] None =
     Inl (ValueError ''no substitution placeholder'')"
    by (simp add: Parameters_init_def np_array_float_def any_ge_def default_sigma_def
        word_char_def)
  have good: "\<exists>P. Parameters_init example_rounding [''corPP''] [''fix m3 ${corPP} x'']
     [Some (Fin (1/2))] [Some (Fin 0)] [Some (Fin 1)] None = Inr P"
    by (simp add: Parameters_init_def np_array_float_def any_ge_def default_sigma_def
        word_char_def)
  from bad have v: "violates_constraints [''corPP''] [''fix m3 all property/global'']
     [Some (Fin (1/2))] [Some (Fin 0)] [Some (Fin 1)] None"
    using Parameters_init_raises_iff [OF a1, of example_rounding "[''corPP'']"
        "[Some (Fin (1/2))]" "[Some (Fin 0)]" "[Some (Fin 1)]" None]
    by blast
  from good have nv: "\<not> violates_constraints [''corPP''] [''fix m3 ${corPP} x'']
     [Some (Fin (1/2))] [Some (Fin 0)] [Some (Fin 1)] None"
    using Parameters_init_raises_iff [OF a2, of example_rounding "[''corPP'']"
        "[Some (Fin (1/2))]" "[Some (Fin 0)]" "[Some (Fin 1)]" None]
    by blast
  with Parameters_init_raises_iff [OF a2, of example_rounding "[''corPP'']"
        "[Some (Fin (1/2))]" "[Some (Fin 0)]" "[Some (Fin 1)]" None]
  have "Parameters_init example_rounding [''corPP''] [''fix m3 ${corPP} x''] [Some (Fin (1/2))]
     [Some (Fin 0)] [Some (Fin 1)] None =
     Inr \<lparr> index_labels = [''corPP''], col_command = [''fix m3 ${corPP} x''],
           col_value = [Fin (1/2)], col_min = [Fin 0], col_max = [Fin 1],
           col_sigma = [Fin (3602879701896397 / 18014398509481984)] \<rparr>"
    by (simp add: np_array_float_def default_sigma_def example_rounding_def)
  with v show ?thesis by simp
qed

lemma default_sigma_nth:
  "length mins = length maxs \<Longrightarrow> i < length mins \<Longrightarrow>
   default_sigma rnd mins maxs ! i = fmul rnd (rnd (2 / 10)) (fsub rnd (maxs ! i) (mins ! i))"
  by (simp add: default_sigma_def)

lemma length_default_sigma:
  "length mins = length maxs \<Longrightarrow> length (default_sigma rnd mins maxs) = length mins"
  by (simp add: default_sigma_def)

lemma Parameters_init_InrD:
  assumes "Parameters_init rnd vs cs ivs mins maxs sg = Inr P"
  shows "length vs = length cs" "length cs = length ivs" "length ivs = length mins"
    "length mins = length maxs"
    "\<not> any_ge (np_array_float mins) (np_array_float maxs)"
    "index_labels P = vs" "col_command P = cs" "col_value P = np_array_float ivs"
    "col_min P = np_array_float mins" "col_max P = np_array_float maxs"
    "col_sigma P =
       (case sg of None \<Rightarrow> default_sigma rnd (np_array_float mins) (np_array_float maxs)
        | Some s \<Rightarrow> s)"
    "\<And>s. sg = Some s \<Longrightarrow> length s = length vs"
  using assms
  by (auto simp: Parameters_init_def Let_def split: if_splits option.splits sum.splits)

text \<open>
  Claim C2. When \<open>sigma0\<close> is omitted and every parameter has both bounds, with the
  minimum below the maximum, the sigma column of the table built is, parameter by
  parameter, 0.2 times the maximum minus the minimum, in the arithmetic of doubles: the
  difference is rounded, and so is its product with the double of \<open>0.2\<close>.
\<close>

theorem sigma_defaults_when_omitted:
  assumes "Parameters_init rnd vs cs ivs (map Some los) (map Some his) None = Inr P"
    and "list_all2 flt los his"
  shows "col_sigma P = map2 (\<lambda>lo hi. fmul rnd (rnd (2 / 10)) (fsub rnd hi lo)) los his \<and>
         length (col_sigma P) = length vs \<and>
         (\<forall>i a b. i < length vs \<and> los ! i = Fin a \<and> his ! i = Fin b \<longrightarrow>
            col_sigma P ! i = fmul rnd (rnd (2 / 10)) (rnd (b - a))) \<and>
         (\<forall>i a b c d. i < length vs \<and> los ! i = Fin a \<and> his ! i = Fin b \<and>
              rnd (2 / 10) = Fin c \<and> rnd (b - a) = Fin d \<longrightarrow>
            col_sigma P ! i = rnd (c * d))"
proof -
  note D = Parameters_init_InrD [OF assms(1)]
  have len: "length los = length his" "length vs = length los"
    using D(1-4) by simp_all
  have mins: "np_array_float (map Some los) = los" and maxs: "np_array_float (map Some his) = his"
    by (simp_all add: np_array_float_def comp_def)
  have sig: "col_sigma P = default_sigma rnd los his"
    using D(11) by (simp add: mins maxs)
  have eq: "default_sigma rnd los his =
      map2 (\<lambda>lo hi. fmul rnd (rnd (2 / 10)) (fsub rnd hi lo)) los his"
    using len(1) unfolding default_sigma_def
    by (intro nth_equalityI) simp_all
  have fin: "col_sigma P ! i = fmul rnd (rnd (2 / 10)) (rnd (b - a))"
    if "i < length vs" "los ! i = Fin a" "his ! i = Fin b" for i a b
    using that len by (simp add: sig default_sigma_nth)
  have prod: "col_sigma P ! i = rnd (c * d)"
    if "i < length vs" "los ! i = Fin a" "his ! i = Fin b"
      "rnd (2 / 10) = Fin c" "rnd (b - a) = Fin d" for i a b c d
    using fin [OF that(1-3)] that(4,5) by simp
  have l: "length (col_sigma P) = length vs"
    using sig len by (simp add: length_default_sigma)
  from sig eq have m: "col_sigma P =
      map2 (\<lambda>lo hi. fmul rnd (rnd (2 / 10)) (fsub rnd hi lo)) los his" by simp
  from m l fin prod show ?thesis by blast
qed

theorem sigma_defaults_when_omitted_witness:
  "list_all2 flt [Fin 0, Fin (-3)] [Fin 1, Fin 5] \<and>
   (\<exists>P. Parameters_init example_rounding [''cor'', ''sep''] [''fix ${cor}'', ''fix ${sep}'']
          [Some (Fin (1/2)), Some (Fin 1)] (map Some [Fin 0, Fin (-3)]) (map Some [Fin 1, Fin 5]) None
        = Inr P \<and>
        col_sigma P = [Fin (3602879701896397 / 18014398509481984),
                       Fin (3602879701896397 / 2251799813685248)])"
proof -
  have h: "list_all2 flt [Fin 0, Fin (-3)] [Fin 1, Fin 5]" by simp
  have "\<exists>P. Parameters_init example_rounding [''cor'', ''sep''] [''fix ${cor}'', ''fix ${sep}'']
          [Some (Fin (1/2)), Some (Fin 1)] (map Some [Fin 0, Fin (-3)]) (map Some [Fin 1, Fin 5]) None
        = Inr P"
    by (simp add: Parameters_init_def np_array_float_def any_ge_def default_sigma_def
        word_char_def)
  then obtain P where P: "Parameters_init example_rounding [''cor'', ''sep'']
          [''fix ${cor}'', ''fix ${sep}'']
          [Some (Fin (1/2)), Some (Fin 1)] (map Some [Fin 0, Fin (-3)]) (map Some [Fin 1, Fin 5]) None
        = Inr P" ..
  from sigma_defaults_when_omitted [OF P h]
  have "col_sigma P = [Fin (3602879701896397 / 18014398509481984),
                       Fin (3602879701896397 / 2251799813685248)]"
    by (simp add: example_rounding_def)
  with h P show ?thesis by blast
qed

subsection \<open>What a constructed table guarantees about sigma\<close>

lemma rounding_ok_example: "rounding_ok example_rounding"
proof -
  have "(0::real) < 3602879701896397 / 18014398509481984 \<and>
        example_rounding (2 / 10) = Fin (3602879701896397 / 18014398509481984)"
    by (simp add: example_rounding_def)
  moreover have "\<forall>r. example_rounding r \<noteq> NaN"
    by (simp add: example_rounding_def)
  ultimately show ?thesis unfolding rounding_ok_def by blast
qed

lemma fmul_NaN_right: "fmul rnd x NaN = NaN"
  by (cases x) simp_all

lemma fsub_NaN_right: "fsub rnd x NaN = NaN"
  by (cases x) simp_all

lemma sigma_NaN_iff:
  assumes "rounding_ok rnd" "\<not> fge a b"
  shows "fmul rnd (rnd (2 / 10)) (fsub rnd b a) = NaN \<longleftrightarrow> a = NaN \<or> b = NaN"
proof -
  from assms(1) obtain c where c: "0 < c" "rnd (2 / 10) = Fin c"
    and nn: "\<And>r. rnd r \<noteq> NaN"
    by (auto simp: rounding_ok_def)
  have mul: "fmul rnd (Fin c) x \<noteq> NaN" if "x \<noteq> NaN" for x
    using that c(1) nn by (cases x) simp_all
  show ?thesis
  proof (cases "a = NaN \<or> b = NaN")
    case True
    then show ?thesis by (auto simp: fmul_NaN_right fsub_NaN_right)
  next
    case False
    with assms(2) have "fsub rnd b a \<noteq> NaN"
      using nn by (cases a; cases b) simp_all
    from mul [OF this] False show ?thesis by (simp only: c(2)) 
  qed
qed

text \<open>
  Claim C7, as the code has it. A table that was constructed has no row whose minimum is
  greater than or equal to its maximum; a row with an absent bound, stored as NaN, passes
  that check. With \<open>sigma0\<close> omitted the sigma of a row is 0.2 times the maximum minus
  the minimum, and it is NaN exactly when one of the two bounds of the row is NaN. With an
  explicit \<open>sigma0\<close> the sigma column is the sequence supplied, unchanged.
\<close>

theorem constructed_table_sigma:
  assumes "Parameters_init rnd vs cs ivs mins maxs sg = Inr P"
    and "rounding_ok rnd"
  shows "length (col_sigma P) = length vs \<and>
         (\<forall>i. i < length vs \<longrightarrow> \<not> fge (col_min P ! i) (col_max P ! i)) \<and>
         (\<forall>s. sg = Some s \<longrightarrow> col_sigma P = s) \<and>
         (sg = None \<longrightarrow>
            (\<forall>i. i < length vs \<longrightarrow>
               col_sigma P ! i =
                 fmul rnd (rnd (2 / 10)) (fsub rnd (col_max P ! i) (col_min P ! i)) \<and>
               (col_sigma P ! i = NaN \<longleftrightarrow> col_min P ! i = NaN \<or> col_max P ! i = NaN)))"
proof -
  note D = Parameters_init_InrD [OF assms(1)]
  have len: "length (np_array_float mins) = length (np_array_float maxs)"
    "length vs = length (np_array_float mins)"
    using D(1-4) by (simp_all add: np_array_float_def)
  have nge: "\<not> fge (col_min P ! i) (col_max P ! i)" if "i < length vs" for i
    using that D(5) len any_ge_iff [OF len(1)] by (simp add: D(9,10))
  have l: "length (col_sigma P) = length vs"
    using D(11,12) len by (cases sg) (simp_all add: length_default_sigma)
  have ex: "col_sigma P = s" if "sg = Some s" for s
    using that D(11) by simp
  have dflt: "col_sigma P ! i =
      fmul rnd (rnd (2 / 10)) (fsub rnd (col_max P ! i) (col_min P ! i))"
    if "sg = None" "i < length vs" for i
    using that D(11) len by (simp add: D(9,10) default_sigma_nth)
  have nan: "col_sigma P ! i = NaN \<longleftrightarrow> col_min P ! i = NaN \<or> col_max P ! i = NaN"
    if "sg = None" "i < length vs" for i
    using dflt [OF that] sigma_NaN_iff [OF assms(2) nge [OF that(2)]] by simp
  show ?thesis
    using l nge ex dflt nan by blast
qed

theorem constructed_table_sigma_witness:
  "\<exists>P. Parameters_init example_rounding [''cor'', ''sep''] [''fix ${cor}'', ''fix ${sep}'']
          [Some (Fin 1), Some (Fin 2)] [Some (Fin 0), None] [Some (Fin 1), Some (Fin 3)] None
        = Inr P \<and> col_sigma P ! 0 \<noteq> NaN \<and> col_sigma P ! 1 = NaN"
proof -
  have "\<exists>P. Parameters_init example_rounding [''cor'', ''sep''] [''fix ${cor}'', ''fix ${sep}'']
          [Some (Fin 1), Some (Fin 2)] [Some (Fin 0), None] [Some (Fin 1), Some (Fin 3)] None
        = Inr P"
    by (simp add: Parameters_init_def np_array_float_def any_ge_def default_sigma_def
        word_char_def)
  then obtain P where P: "Parameters_init example_rounding [''cor'', ''sep'']
          [''fix ${cor}'', ''fix ${sep}'']
          [Some (Fin 1), Some (Fin 2)] [Some (Fin 0), None] [Some (Fin 1), Some (Fin 3)] None
        = Inr P" ..
  have mm: "col_min P = [Fin 0, NaN]" "col_max P = [Fin 1, Fin 3]"
    using Parameters_init_InrD(9,10) [OF P] by (simp_all add: np_array_float_def)
  from constructed_table_sigma [OF P rounding_ok_example]
  have "col_sigma P ! 0 \<noteq> NaN \<and> col_sigma P ! 1 = NaN"
    by (simp add: mm example_rounding_def fmul_NaN_right fsub_NaN_right)
  with P show ?thesis by blast
qed

text \<open>
  The claim as written fails on the example of the class's own documentation: the
  parameter \<open>youngmodP\<close> has neither bound and no \<open>sigma0\<close> is given, the
  constructor succeeds, and the sigma of that parameter is NaN.
\<close>

theorem sigma_invariant_counterexample:
  "Parameters_init example_rounding [''corPP'', ''youngmodP'']
     [''fix m3 all property/global coefficientRestitution peratomtypepair 3 ${corPP} ${corPW}'',
      ''fix m1 all property/global youngsModulus peratomtype ${youngmodP} ${youngmodP}'']
     [Some (Fin (1 / 2)), Some (Fin 800000000)] [Some (Fin 0), None] [Some (Fin 1), None] None =
     Inr \<lparr> index_labels = [''corPP'', ''youngmodP''],
           col_command =
             [''fix m3 all property/global coefficientRestitution peratomtypepair 3 ${corPP} ${corPW}'',
              ''fix m1 all property/global youngsModulus peratomtype ${youngmodP} ${youngmodP}''],
           col_value = [Fin (1 / 2), Fin 800000000],
           col_min = [Fin 0, NaN], col_max = [Fin 1, NaN],
           col_sigma = [Fin (3602879701896397 / 18014398509481984), NaN] \<rparr>"
  by (simp add: Parameters_init_def np_array_float_def any_ge_def default_sigma_def
      word_char_def Let_def example_rounding_def)

section \<open>Properties of the simulation wrapper\<close>

lemma length_at_set: "length (at_set k v ls xs) = length xs"
  by (induction k v ls xs rule: at_set.induct) simp_all

lemma nth_at_set_other:
  "i < length xs \<Longrightarrow> (i < length ls \<Longrightarrow> ls ! i \<noteq> k) \<Longrightarrow> at_set k v ls xs ! i = xs ! i"
proof (induction k v ls xs arbitrary: i rule: at_set.induct)
  case (1 key v l ls x xs)
  then show ?case by (cases i) auto
qed simp_all

lemma nth_at_set_key:
  "i < length xs \<Longrightarrow> i < length ls \<Longrightarrow> ls ! i = k \<Longrightarrow> at_set k v ls xs ! i = v"
proof (induction k v ls xs arbitrary: i rule: at_set.induct)
  case (1 key v l ls x xs)
  then show ?case by (cases i) auto
qed simp_all

lemma setitem_cases:
  assumes "setitem env k v s = (r, s')"
  shows "(\<exists>e. r = Raise e \<and> s' = s) \<or>
         (r = Return () \<and>
          (\<exists>sim. s' = s\<lparr> simulation := sim,
              parameters := (parameters s)\<lparr> col_value :=
                at_set k v (index_labels (parameters s)) (col_value (parameters s)) \<rparr> \<rparr>))"
  using assms
  by (auto simp: setitem_def Let_def split: if_splits list.splits)

text \<open>
  Claim C8. The assignment \<open>simulation[k] = v\<close> for a name \<open>k\<close> of the table changes
  nothing in the table but the value cell of the row named \<open>k\<close>: the labels and the
  command, minimum, maximum and sigma columns are kept, and so is the value cell of every
  row with another name. When the assignment returns, the value cell of row \<open>k\<close> is
  \<open>v\<close>.
\<close>

theorem setitem_frame:
  assumes "k \<in> set (index_labels (parameters s))"
    and "setitem env k v s = (r, s')"
  shows "index_labels (parameters s') = index_labels (parameters s) \<and>
         col_command (parameters s') = col_command (parameters s) \<and>
         col_min (parameters s') = col_min (parameters s) \<and>
         col_max (parameters s') = col_max (parameters s) \<and>
         col_sigma (parameters s') = col_sigma (parameters s) \<and>
         length (col_value (parameters s')) = length (col_value (parameters s)) \<and>
         (\<forall>i. i < length (col_value (parameters s)) \<and>
               (i < length (index_labels (parameters s)) \<longrightarrow> index_labels (parameters s) ! i \<noteq> k) \<longrightarrow>
               col_value (parameters s') ! i = col_value (parameters s) ! i) \<and>
         (r = Return () \<longrightarrow>
            (\<forall>i. i < length (col_value (parameters s)) \<and>
                 i < length (index_labels (parameters s)) \<and> index_labels (parameters s) ! i = k \<longrightarrow>
                 col_value (parameters s') ! i = v))"
proof -
  from setitem_cases [OF assms(2)]
  consider (raise) e where "r = Raise e" "s' = s"
    | (ret) sim where "r = Return ()"
        "s' = s\<lparr> simulation := sim,
              parameters := (parameters s)\<lparr> col_value :=
                at_set k v (index_labels (parameters s)) (col_value (parameters s)) \<rparr> \<rparr>"
    by blast
  then show ?thesis
  proof cases
    case raise
    then show ?thesis by simp
  next
    case ret
    then show ?thesis
      by (simp add: length_at_set nth_at_set_other nth_at_set_key)
  qed
qed


theorem setitem_frame_witness:
  "\<exists>s'. setitem recording_engine ''cor'' (Fin (3 / 4)) example_simulation = (Return (), s') \<and>
        simulation s' = [''fix m3 0.75 None'', ''variable cor equal 0.75''] \<and>
        col_value (parameters s') ! 0 = Fin (3 / 4) \<and>
        col_value (parameters s') ! 1 = Fin 2 \<and>
        col_command (parameters s') = col_command example_table \<and>
        col_min (parameters s') = [Fin 0, Fin 0] \<and>
        col_max (parameters s') = [Fin 5, Fin 5] \<and>
        col_sigma (parameters s') = [Fin 1, Fin 1]"
proof -
  have k: "''cor'' \<in> set (index_labels (parameters example_simulation))"
    by (simp add: example_simulation_def example_table_def)
  obtain s' where run: "setitem recording_engine ''cor'' (Fin (3 / 4)) example_simulation = (Return (), s')"
    and sim: "simulation s' = [''fix m3 0.75 None'', ''variable cor equal 0.75'']"
    by (simp add: setitem_def example_simulation_def example_table_def recording_engine_def
        replace_var_def variable_def word_char_def Let_def)
  note F = setitem_frame [OF k run]
  have p: "parameters example_simulation = example_table"
    by (simp add: example_simulation_def)
  have cols: "col_command (parameters s') = col_command example_table"
    "col_min (parameters s') = [Fin 0, Fin 0]" "col_max (parameters s') = [Fin 5, Fin 5]"
    "col_sigma (parameters s') = [Fin 1, Fin 1]"
    using F by (simp_all add: p) (simp_all add: example_table_def)
  from F have other: "\<And>i. i < length (col_value example_table) \<and>
               (i < length (index_labels example_table) \<longrightarrow> index_labels example_table ! i \<noteq> ''cor'') \<longrightarrow>
               col_value (parameters s') ! i = col_value example_table ! i"
    and key: "\<And>i. i < length (col_value example_table) \<and>
                 i < length (index_labels example_table) \<and> index_labels example_table ! i = ''cor'' \<longrightarrow>
                 col_value (parameters s') ! i = Fin (3 / 4)"
    unfolding p by blast+
  have v1: "col_value (parameters s') ! 1 = Fin 2"
    using other [of 1] by (simp add: example_table_def)
  have v0: "col_value (parameters s') ! 0 = Fin (3 / 4)"
    using key [of 0] by (simp add: example_table_def)
  from run sim cols v0 v1 show ?thesis by blast
qed

text \<open>
  Claim C9. The property \<open>verbose\<close> of every simulation reads as \<open>None\<close>, whatever
  was passed to the constructor or assigned through the setter, and \<open>step\<close> therefore
  always issues the command \<open>run <n> post no\<close>.
\<close>

theorem verbose_property_is_None:
  "verbose s = None \<and>
   verbose (verbose_set v s) = None \<and>
   (\<forall>s'. Simulation_init env readable script params v = Inr s' \<longrightarrow> verbose s' = None) \<and>
   step env n s =
     s\<lparr> simulation := lmp_command env (''run '' @ str_int n @ '' post no'') (simulation s) \<rparr>"
  by (simp add: verbose_def step_def)

theorem verbose_property_is_None_witness:
  "\<exists>s'. Simulation_init recording_engine (\<lambda>p. True) ''in.sim'' example_table True = Inr s' \<and>
        verbose_attr s' = True \<and> verbose s' = None \<and>
        simulation (step recording_engine 200 s') =
          [''file in.sim'', ''fix m3 0.5 None'', ''variable cor equal 0.5'',
           ''fix m4 0.5'', ''variable sep equal 0.5'', ''run 200 post no'']"
proof -
  obtain s' where init: "Simulation_init recording_engine (\<lambda>p. True) ''in.sim'' example_table True = Inr s'"
    and v: "verbose_attr s' = True"
    and sim: "simulation s' = [''file in.sim'', ''fix m3 0.5 None'', ''variable cor equal 0.5'',
           ''fix m4 0.5'', ''variable sep equal 0.5'']"
    by (simp add: Simulation_init_def setitem_def example_table_def recording_engine_def
        replace_var_def variable_def word_char_def Let_def)
  have n: "str_int 200 = ''200''"
    by (simp add: str_int_def digit_char_def)
  from verbose_property_is_None [of s' True recording_engine "\<lambda>p. True" "''in.sim''" example_table 200]
  have "verbose s' = None \<and>
        simulation (step recording_engine 200 s') =
          [''file in.sim'', ''fix m3 0.5 None'', ''variable cor equal 0.5'',
           ''fix m4 0.5'', ''variable sep equal 0.5'', ''run 200 post no'']"
    using init by (simp add: sim n recording_engine_def)
  with init v show ?thesis by blast
qed

text \<open>
  Claim C10. Assigning to \<open>step_size\<close> a value that is not strictly between 0 and 1
  raises \<open>ValueError\<close> and leaves the object as it was. Assigning a value strictly
  between 0 and 1 stores it as the step size and issues the command \<open>timestep\<close> with
  that value.
\<close>

theorem step_size_set_spec:
  "(\<not> (flt (Fin 0) x \<and> flt x (Fin 1)) \<longrightarrow>
      step_size_set env x s = (Raise (ValueError ''Step size must be between 0 and 1 !''), s)) \<and>
   (flt (Fin 0) x \<and> flt x (Fin 1) \<longrightarrow>
      (\<exists>s'. step_size_set env x s = (Return (), s') \<and>
            step_size s' = x \<and>
            simulation s' = lmp_command env (''timestep '' @ str_float env x) (simulation s) \<and>
            verbose_attr s' = verbose_attr s \<and> filename s' = filename s \<and>
            parameters s' = parameters s))"
  by (simp add: step_size_set_def step_size_def)

theorem step_size_set_spec_witness:
  "step_size_set recording_engine (Fin 2) example_simulation =
     (Raise (ValueError ''Step size must be between 0 and 1 !''), example_simulation) \<and>
   step_size_set recording_engine NaN example_simulation =
     (Raise (ValueError ''Step size must be between 0 and 1 !''), example_simulation) \<and>
   (\<exists>s'. step_size_set recording_engine (Fin (1 / 2)) example_simulation = (Return (), s') \<and>
         step_size s' = Fin (1 / 2) \<and> simulation s' = [''timestep 0.5''])"
proof -
  have a: "step_size_set recording_engine (Fin 2) example_simulation =
     (Raise (ValueError ''Step size must be between 0 and 1 !''), example_simulation)"
    using step_size_set_spec [of "Fin 2" recording_engine example_simulation] by simp
  have b: "step_size_set recording_engine NaN example_simulation =
     (Raise (ValueError ''Step size must be between 0 and 1 !''), example_simulation)"
    using step_size_set_spec [of NaN recording_engine example_simulation] by simp
  have "flt (Fin 0) (Fin (1 / 2)) \<and> flt (Fin (1 / 2)) (Fin 1)" by simp
  with step_size_set_spec [of "Fin (1 / 2)" recording_engine example_simulation]
  obtain s' where c: "step_size_set recording_engine (Fin (1 / 2)) example_simulation = (Return (), s')"
    "step_size s' = Fin (1 / 2)"
    "simulation s' = lmp_command recording_engine
        (''timestep '' @ str_float recording_engine (Fin (1 / 2))) (simulation example_simulation)"
    by blast
  have "simulation s' = [''timestep 0.5'']"
    unfolding c(3) by (simp add: recording_engine_def example_simulation_def)
  with a b c show ?thesis by blast
qed

section \<open>Properties of the reader\<close>

subsection \<open>Splitting the path of the history file\<close>








subsection \<open>The steps of the reader on a complete run directory\<close>



















subsection \<open>The reader on concrete directories\<close>

text \<open>The definitions that running the reader on a concrete file system unfolds.\<close>

lemmas eval_defs = fs_with_run_def path_join_def example_info_def example_history_def
  example_data_def example_columns_def AccessData_read_def find_access_path_def
  match_history_def is_digit_def is_space_def np_loadtxt_def results_columns_def
  py_int_def parse_nat_def strip_def digit_value_def digit_char_def Let_def



subsection \<open>The number of epochs\<close>

text \<open>
  Whenever the reader returns, the number of epochs is the number of rows of the history
  table divided by the population size it parsed; no stored count is read.
\<close>

lemma DataFrame_init_results:
  assumes "DataFrame_init a (results_columns p) = Inr df"
  shows "\<exists>rows. a = Arr2 rows \<and> df_rows df = rows"
  using assms by (cases a) (auto simp: results_columns_def split: if_splits)

lemma read_num_epochs:
  assumes "AccessData_read fs path = Inr d"
  shows "ad_num_solutions d \<noteq> 0 \<and>
         ad_num_epochs d = int (length (df_rows (ad_results d))) div ad_num_solutions d"
  using assms unfolding AccessData_read_def
  by (auto split: sum.splits option.splits prod.splits if_splits
      simp del: DataFrame_init.simps dest!: DataFrame_init_results)

text \<open>
  Claim C4. The reader is to divide the number of history rows by the population size
  written in the name of the history file. It parses the number from the second piece of
  the whole path of that file, so a directory name can supply it: the history
  \<open>opt_history_2.csv\<close> of four rows, in a run directory below
  \<open>opt_history_4opt_history_\<close>, is read with population size 4 and one epoch, where
  the file name says 2 and the rows make two epochs.
\<close>

theorem population_size_from_directory_name:
  "AccessData_read
     (fs_with_run ''opt_history_4opt_history_'' ''access_info_000042'' 2 example_info
        example_history example_history)
     ''opt_history_4opt_history_/access_info_000042'' = Inr (example_data 4) \<and>
   ad_num_solutions (example_data 4) = 4 \<and> ad_num_epochs (example_data 4) = 1 \<and>
   length (df_rows (ad_results (example_data 4))) = 4"
  by (simp add: eval_defs)

text \<open>
  Claim C3. A run read back is to show the configuration it was run with and a history
  of epochs times population size rows. The same run directory, with population size 2
  and four rows, is read back as it was written below the parent \<open>runs\<close>, but below
  a parent named \<open>runs.csv\<close> the reader takes the piece of the path after that
  \<open>.csv\<close> for the population size and raises \<open>ValueError\<close>.
\<close>

theorem round_trip_fails_under_csv_parent:
  "AccessData_read
     (fs_with_run ''runs.csv'' ''access_info_000042'' 2 example_info example_history example_history)
     ''runs.csv/access_info_000042'' = Inl (ValueError ''invalid literal for int()'') \<and>
   AccessData_read
     (fs_with_run ''runs'' ''access_info_000042'' 2 example_info example_history example_history)
     ''runs/access_info_000042'' = Inr (example_data 2)"
  by (simp add: eval_defs)

text \<open>
  Claim C5. Constructing \<open>AccessData\<close> from a path is to return what
  \<open>AccessData.read\<close> returns for it. The class has only the generated constructor of
  seven attributes, so the call with a path alone raises \<open>TypeError\<close>, while
  \<open>read\<close> on the same path returns the run; the constructor builds that object only
  from its seven attribute values.
\<close>

theorem construct_by_path_raises:
  "AccessData_init [PyStr ''access_data/access_seed123''] =
     Inl (TypeError ''__init__() missing or unexpected positional arguments'') \<and>
   AccessData_read
     (fs_with_run ''access_data'' ''access_seed123'' 2 example_info example_history example_history)
     ''access_data/access_seed123'' = Inr (example_data 2) \<and>
   AccessData_init (attributes (example_data 2)) = Inr (attributes (example_data 2))"
  by (simp add: AccessData_init_def attributes_def eval_defs)


end
